theory Spec2Isabelle
  imports Complex_Main "HOL-Library.Word"
begin

section \<open>Values and errors\<close>

text \<open>
  A cell of a pandas table. Numeric columns hold float64 or int64 values; a float is taken
  as the exact real it denotes (rounding is not modelled), an int64 as a 64-bit word read
  signed, so that integer addition wraps as NumPy's does. \<open>Num x\<close> is a value that
  \<open>pd.to_numeric\<close> reads as the number \<open>x\<close>, \<open>Str s\<close> a text that it cannot
  convert, \<open>NaN\<close> a missing value (also NaT). Infinite floats are outside the model.
\<close>

datatype cell = Num real | I64 "64 word" | Str string | Timestamp int | NaN

text \<open>The exceptions that the functions of \<open>dashboard.py\<close> can raise.\<close>

datatype error =
    FileNotFoundError string
  | EmptyDataError
  | ValueError_missing_columns "string list" "string list"
  | ValueError_not_unique string
  | ValueError_empty_argmax
  | TypeError
  | AttributeError
  | KeyError string

section \<open>Text helpers\<close>

text \<open>
  \<open>str.lower\<close> on ASCII letters (other bytes are left as they are), and the substring
  test \<open>sub in s\<close>.
\<close>

definition lower_char :: "char \<Rightarrow> char" where
  "lower_char c =
     (case map_of (zip ''ABCDEFGHIJKLMNOPQRSTUVWXYZ'' ''abcdefghijklmnopqrstuvwxyz'') c of
        Some l \<Rightarrow> l
      | None \<Rightarrow> c)"

definition lower :: "string \<Rightarrow> string" where
  "lower s = map lower_char s"

fun startswith :: "string \<Rightarrow> string \<Rightarrow> bool" where
  "startswith s [] = True"
| "startswith [] (p # ps) = False"
| "startswith (c # cs) (p # ps) = (c = p \<and> startswith cs ps)"

fun str_in :: "string \<Rightarrow> string \<Rightarrow> bool" where
  "str_in sub [] = (sub = [])"
| "str_in sub (c # cs) = (startswith (c # cs) sub \<or> str_in sub cs)"

section \<open>The normalizer: \<open>auto_clean_raw_to_csv\<close>\<close>

subsection \<open>Tables and files\<close>

text \<open>
  A CSV file as pandas reads and writes it: a header and rows of cells. The bytes of the
  file are a function of this table, so equal tables are equal files. A row shorter than
  the header is read with missing cells at its end.
\<close>

record csv =
  header :: "string list"
  body :: "cell list list"

text \<open>
  A \<open>DataFrame\<close>: the column labels, and the rows, each with its index label and its cells
  paired with their column labels. Labels may repeat; reading a cell by label takes the first.
\<close>

type_synonym row = "(string \<times> cell) list"

record frame =
  columns :: "string list"
  rows :: "(nat \<times> row) list"

type_synonym files = "string \<rightharpoonup> csv"

text \<open>
  What the model takes from pandas without defining it: the assembly of a timestamp from
  year, month and day (\<open>None\<close> is NaT, which \<open>errors="coerce"\<close> gives for an impossible
  or out-of-range date), and the text that \<open>astype(str)\<close> gives for a value that is not
  a text already.
\<close>

record pandas =
  to_datetime :: "real \<Rightarrow> real \<Rightarrow> real \<Rightarrow> int option"
  py_str :: "cell \<Rightarrow> string"

definition read_csv :: "csv \<Rightarrow> frame" where
  "read_csv file =
     \<lparr>columns = header file,
      rows = enumerate 0
        (map (\<lambda>cells. zip (header file)
                (cells @ replicate (length (header file) - length cells) NaN))
           (body file))\<rparr>"

text \<open>\<open>to_csv(index=False)\<close>.\<close>

definition to_csv :: "frame \<Rightarrow> csv" where
  "to_csv df = \<lparr>header = columns df, body = map (\<lambda>(i, r). map snd r) (rows df)\<rparr>"

definition get :: "row \<Rightarrow> string \<Rightarrow> cell" where
  "get r k = (case map_of r k of Some v \<Rightarrow> v | None \<Rightarrow> NaN)"

text \<open>
  \<open>df[k] = values\<close>: every column labelled \<open>k\<close> takes the value, and a new column is
  added at the end when there is none.
\<close>

definition set_item :: "string \<Rightarrow> cell \<Rightarrow> row \<Rightarrow> row" where
  "set_item k v r =
     (if k \<in> fst ` set r then map (\<lambda>(c, x). (c, if c = k then v else x)) r
      else r @ [(k, v)])"

definition assign :: "string \<Rightarrow> (row \<Rightarrow> cell) \<Rightarrow> frame \<Rightarrow> frame" where
  "assign k f df =
     \<lparr>columns = (if k \<in> set (columns df) then columns df else columns df @ [k]),
      rows = map (\<lambda>(i, r). (i, set_item k (f r) r)) (rows df)\<rparr>"

definition map_columns :: "(string \<Rightarrow> string) \<Rightarrow> frame \<Rightarrow> frame" where
  "map_columns g df =
     \<lparr>columns = map g (columns df),
      rows = map (\<lambda>(i, r). (i, map (\<lambda>(c, x). (g c, x)) r)) (rows df)\<rparr>"

text \<open>\<open>df.rename(columns=m)\<close>.\<close>

definition rename :: "(string \<times> string) list \<Rightarrow> frame \<Rightarrow> frame" where
  "rename m df = map_columns (\<lambda>c. case map_of m c of Some v \<Rightarrow> v | None \<Rightarrow> c) df"

text \<open>\<open>df.dropna(subset=ks)\<close>.\<close>

definition dropna :: "string list \<Rightarrow> frame \<Rightarrow> frame" where
  "dropna ks df = df\<lparr>rows := filter (\<lambda>(i, r). list_all (\<lambda>k. get r k \<noteq> NaN) ks) (rows df)\<rparr>"

text \<open>\<open>df[ks]\<close> with a list of labels: for each label in turn, all columns that carry it.\<close>

definition select :: "string list \<Rightarrow> frame \<Rightarrow> frame" where
  "select ks df =
     \<lparr>columns = concat (map (\<lambda>k. filter (\<lambda>c. c = k) (columns df)) ks),
      rows = map (\<lambda>(i, r). (i, concat (map (\<lambda>k. filter (\<lambda>(c, x). c = k) r) ks))) (rows df)\<rparr>"

text \<open>
  \<open>df.sort_values(k)\<close> on a column of timestamps. Rows with equal keys keep their order
  here; pandas' default sort does not promise that, and nothing below depends on it.
\<close>

definition sort_values :: "string \<Rightarrow> frame \<Rightarrow> frame" where
  "sort_values k df =
     df\<lparr>rows := sort_key (\<lambda>(i, r). case get r k of Timestamp t \<Rightarrow> t | _ \<Rightarrow> 0) (rows df)\<rparr>"

subsection \<open>Column operations\<close>

text \<open>\<open>str.strip()\<close>, for the ASCII white space.\<close>

definition whitespace :: string where
  "whitespace =
     [CHR '' '', CHR 0x09, CHR 0x0A, CHR 0x0B, CHR 0x0C, CHR 0x0D,
      CHR 0x1C, CHR 0x1D, CHR 0x1E, CHR 0x1F]"

definition strip :: "string \<Rightarrow> string" where
  "strip s =
     rev (dropWhile (\<lambda>c. c \<in> set whitespace) (rev (dropWhile (\<lambda>c. c \<in> set whitespace) s)))"

text \<open>\<open>pd.to_numeric(errors="coerce")\<close>: what is not a number becomes missing.\<close>

definition to_numeric :: "cell \<Rightarrow> cell" where
  "to_numeric c = (case c of Num x \<Rightarrow> Num x | I64 w \<Rightarrow> I64 w | _ \<Rightarrow> NaN)"

definition fillna :: "cell \<Rightarrow> cell \<Rightarrow> cell" where
  "fillna v c = (case c of NaN \<Rightarrow> v | _ \<Rightarrow> c)"

text \<open>
  \<open>astype(int)\<close> on a numeric column without missing values: a float is cut towards zero.
  NumPy leaves the cast of a float beyond the int64 range to the platform; the model
  wraps it. The cells that are no numbers do not reach this function.
\<close>

definition trunc64 :: "real \<Rightarrow> 64 word" where
  "trunc64 x = word_of_int (if x \<ge> 0 then \<lfloor>x\<rfloor> else \<lceil>x\<rceil>)"

definition astype_int :: "cell \<Rightarrow> cell" where
  "astype_int c = (case c of Num x \<Rightarrow> I64 (trunc64 x) | _ \<Rightarrow> c)"

text \<open>\<open>astype(str)\<close>: a text stays, a missing value reads \<open>nan\<close>.\<close>

definition astype_str :: "pandas \<Rightarrow> cell \<Rightarrow> string" where
  "astype_str pd c = (case c of Str s \<Rightarrow> s | NaN \<Rightarrow> ''nan'' | _ \<Rightarrow> py_str pd c)"

text \<open>The sum of two int64 columns, which wraps.\<close>

definition add_int :: "cell \<Rightarrow> cell \<Rightarrow> cell" where
  "add_int a b = (case (a, b) of (I64 x, I64 y) \<Rightarrow> I64 (x + y) | _ \<Rightarrow> NaN)"

definition num_val :: "cell \<Rightarrow> real option" where
  "num_val c = (case c of Num x \<Rightarrow> Some x | I64 w \<Rightarrow> Some (real_of_int (sint w)) | _ \<Rightarrow> None)"

text \<open>Line 197: \<open>pd.to_datetime(dict(year=..., month=..., day=...), errors="coerce")\<close>.\<close>

definition to_datetime_ymd :: "pandas \<Rightarrow> cell \<Rightarrow> cell \<Rightarrow> cell \<Rightarrow> cell" where
  "to_datetime_ymd pd y m d =
     (case (num_val y, num_val m, num_val d) of
        (Some yv, Some mv, Some dv) \<Rightarrow>
          (case to_datetime pd yv mv dv of Some t \<Rightarrow> Timestamp t | None \<Rightarrow> NaN)
      | _ \<Rightarrow> NaN)"

text \<open>
  Lines 206-216, \<open>astype(str).str.strip().str.lower().replace({...})\<close>. The text of a
  number is no key of the table except \<open>1\<close> and \<open>0\<close>, which the table maps to
  themselves, so a number passes unchanged; a missing value reads \<open>nan\<close>, which is a key.
\<close>

definition tsunami_tokens :: "(string \<times> 64 word) list" where
  "tsunami_tokens =
     [(''y'', 1), (''yes'', 1), (''true'', 1), (''1'', 1), (''t'', 1),
      (''n'', 0), (''no'', 0), (''false'', 0), (''0'', 0), (''f'', 0),
      (''nan'', 0), (''none'', 0), ('''', 0)]"

definition replace_tokens :: "cell \<Rightarrow> cell" where
  "replace_tokens c =
     (case c of
        Str s \<Rightarrow>
          (case map_of tsunami_tokens (lower (strip s)) of
             Some v \<Rightarrow> I64 v
           | None \<Rightarrow> Str (lower (strip s)))
      | NaN \<Rightarrow> I64 0
      | _ \<Rightarrow> c)"

subsection \<open>The transform, lines 164-226\<close>

definition rename_map :: "(string \<times> string) list" where
  "rename_map =
     [(''Id'', ''event_id''), (''Year'', ''year''), (''Month'', ''month''), (''Date'', ''day''),
      (''Name'', ''location_name''), (''Latitude'', ''latitude''), (''Longitude'', ''longitude''),
      (''Focal Depth (km)'', ''depth_km''), (''Magnitude'', ''magnitude''),
      (''Deaths'', ''deaths''), (''Injuries'', ''injuries'')]"

definition required :: "string list" where
  "required =
     [''year'', ''month'', ''day'', ''latitude'', ''longitude'', ''depth_km'', ''magnitude'',
      ''deaths'', ''injuries'']"

definition final_cols :: "string list" where
  "final_cols =
     [''event_id'', ''date'', ''year'', ''location_name'', ''latitude'', ''longitude'',
      ''magnitude'', ''depth_km'', ''deaths'', ''injuries'', ''total_casualties'',
      ''tsunami_flag'']"

text \<open>Lines 164-185: the table as read, with its columns stripped and renamed.\<close>

definition renamed :: "csv \<Rightarrow> frame" where
  "renamed file =
     (let df = map_columns strip (read_csv file);
          tsunami_candidates = filter (\<lambda>c. str_in ''tsunami'' (lower c)) (columns df);
          df = (case tsunami_candidates of
                  [] \<Rightarrow> df
                | t # _ \<Rightarrow> rename [(t, ''tsunami_flag'')] df)
      in rename (filter (\<lambda>(k, v). k \<in> set (columns df)) rename_map) df)"

text \<open>Lines 192-197.\<close>

definition numeric_and_date :: "pandas \<Rightarrow> frame \<Rightarrow> frame" where
  "numeric_and_date pd df =
     (let df = fold (\<lambda>c. assign c (\<lambda>r. to_numeric (get r c))) required df;
          df = assign ''month'' (\<lambda>r. astype_int (fillna (Num 1) (get r ''month''))) df;
          df = assign ''day'' (\<lambda>r. astype_int (fillna (Num 1) (get r ''day''))) df
      in assign ''date''
           (\<lambda>r. to_datetime_ymd pd (get r ''year'') (get r ''month'') (get r ''day'')) df)"

text \<open>Lines 199-203, when \<open>df.get("location_name", "Unknown")\<close> is one column.\<close>

definition name_and_casualties :: "pandas \<Rightarrow> frame \<Rightarrow> frame" where
  "name_and_casualties pd df =
     (let df = assign ''location_name''
                 (\<lambda>r. Str (strip (astype_str pd (get r ''location_name'')))) df;
          df = assign ''deaths'' (\<lambda>r. astype_int (fillna (Num 0) (get r ''deaths''))) df;
          df = assign ''injuries'' (\<lambda>r. astype_int (fillna (Num 0) (get r ''injuries''))) df
      in assign ''total_casualties'' (\<lambda>r. add_int (get r ''deaths'') (get r ''injuries'')) df)"

text \<open>Lines 205-217.\<close>

definition tsunami_column :: "frame \<Rightarrow> frame" where
  "tsunami_column df =
     (if ''tsunami_flag'' \<in> set (columns df) then
        assign ''tsunami_flag''
          (\<lambda>r. astype_int (fillna (Num 0) (to_numeric (replace_tokens (get r ''tsunami_flag''))))) df
      else df)"

text \<open>Lines 219-226.\<close>

definition valid_and_final :: "frame \<Rightarrow> frame" where
  "valid_and_final df =
     (let df = dropna [''date'', ''year'', ''latitude'', ''longitude'', ''magnitude'', ''depth_km''] df
      in select (filter (\<lambda>c. c \<in> set (columns df)) final_cols) df)"

text \<open>
  The table that line 229 writes, or the exception. \<open>pd.read_csv\<close> raises
  EmptyDataError on a file without columns. A label that occurs twice makes
  \<open>df[c]\<close> a table instead of a column: \<open>pd.to_numeric\<close> then raises TypeError and
  \<open>.str\<close> AttributeError, and \<open>sort_values\<close> refuses a label that is not unique. With
  no \<open>location_name\<close> column, \<open>df.get\<close> returns the text \<open>"Unknown"\<close>, which has no
  \<open>astype\<close>: AttributeError.
\<close>

definition clean_frame :: "pandas \<Rightarrow> csv \<Rightarrow> error + frame" where
  "clean_frame pd file =
     (let df = renamed file;
          missing = filter (\<lambda>c. c \<notin> set (columns df)) required
      in if header file = [] then Inl EmptyDataError
         else if missing \<noteq> [] then Inl (ValueError_missing_columns missing (columns df))
         else if filter (\<lambda>c. count_list (columns df) c > 1) required \<noteq> [] then Inl TypeError
         else
           let df = numeric_and_date pd df
           in if count_list (columns df) ''location_name'' \<noteq> 1 then Inl AttributeError
              else
                let df = name_and_casualties pd df
                in if count_list (columns df) ''tsunami_flag'' > 1 then Inl AttributeError
                   else
                     let df = valid_and_final (tsunami_column df)
                     in if count_list (columns df) ''date'' > 1
                        then Inl (ValueError_not_unique ''date'')
                        else Inr (sort_values ''date'' df))"

text \<open>\<open>os.path.dirname\<close> for POSIX paths.\<close>

definition dirname :: "string \<Rightarrow> string" where
  "dirname p =
     (let head = rev (dropWhile (\<lambda>c. c \<noteq> CHR ''/'') (rev p))
      in if head \<noteq> [] \<and> \<not> list_all (\<lambda>c. c = CHR ''/'') head
         then rev (dropWhile (\<lambda>c. c = CHR ''/'') (rev head))
         else head)"

text \<open>
  \<open>auto_clean_raw_to_csv\<close>, lines 155-229, on the files it reads and writes. Directories
  are not modelled: \<open>os.makedirs\<close> succeeds, except on the empty path, where it raises
  FileNotFoundError.
\<close>

definition auto_clean_raw_to_csv :: "pandas \<Rightarrow> files \<Rightarrow> string \<Rightarrow> string \<Rightarrow> error + files" where
  "auto_clean_raw_to_csv pd fs raw_path clean_path =
     (case fs raw_path of
        None \<Rightarrow> Inl (FileNotFoundError raw_path)
      | Some file \<Rightarrow>
          (case clean_frame pd file of
             Inl err \<Rightarrow> Inl err
           | Inr df \<Rightarrow>
               if dirname clean_path = [] then Inl (FileNotFoundError [])
               else Inr (fs(clean_path \<mapsto> to_csv df))))"

subsection \<open>Example data\<close>

text \<open>
  An instance of the pandas functions for the examples: a date is valid when the year is
  whole, the month within 1 to 12 and the day within 1 to 28; the timestamp orders dates.
\<close>

definition example_pandas :: pandas where
  "example_pandas =
     \<lparr>to_datetime = (\<lambda>y m d.
        if y = of_int \<lfloor>y\<rfloor> \<and> 1 \<le> m \<and> m \<le> 12 \<and> 1 \<le> d \<and> d \<le> 28
        then Some (10000 * \<lfloor>y\<rfloor> + 100 * \<lfloor>m\<rfloor> + \<lfloor>d\<rfloor>) else None),
      py_str = (\<lambda>c. [])\<rparr>"

definition example_header :: "string list" where
  "example_header =
     [''Year'', ''Month'', ''Date'', ''Name'', ''Latitude'', ''Longitude'', ''Focal Depth (km)'',
      ''Magnitude'', ''Deaths'', ''Injuries'']"

text \<open>
  The raw row of the specification's example, a row with a magnitude that is no number,
  and a row with missing cells.
\<close>

definition example_raw :: csv where
  "example_raw =
     \<lparr>header = example_header,
      body =
        [[Num 1906, Num 4, Num 18, Str ''SAN FRANCISCO'', Num 37.75, Num (-122.45), Num 8,
          Num 7.9, Num 3000, Num 0],
         [Num 1905, NaN, NaN, Str ''KANGRA'', Num 33, Num 76, Num 20,
          Str ''strong'', Num 19000, NaN],
         [Num 1950, Num 6, NaN, Str '' ASSAM '', Num 28.5, Num 96.5, Num 15,
          Num 6.7, Num 5, NaN]]\<rparr>"

section \<open>The dashboard: severity, filter and indicators\<close>

text \<open>
  One row of the loaded table \<open>df\<close> with the added column \<open>severity\<close>. The columns
  \<open>event_id\<close> and \<open>tsunami_flag\<close> exist only when the cleaned file has them, and the
  placeholder table of the empty case has no \<open>date\<close>: an absent column is \<open>None\<close>.
\<close>

record event =
  event_id :: "cell option"
  date :: "int option"
  year :: int
  location_name :: string
  latitude :: real
  longitude :: real
  magnitude :: real
  depth_km :: real
  deaths :: "64 word"
  injuries :: "64 word"
  total_casualties :: "64 word"
  tsunami_flag :: "int option"
  severity :: string

text \<open>\<open>classify_severity\<close>, lines 277-282.\<close>

definition classify_severity :: "int \<Rightarrow> string" where
  "classify_severity tot =
     (if tot \<ge> 1000 then ''Severe''
      else if tot \<ge> 100 then ''Moderate''
      else ''Minor'')"

text \<open>Line 284: \<open>df["severity"] = df["total_casualties"].apply(classify_severity)\<close>.\<close>

definition add_severity :: "event \<Rightarrow> event" where
  "add_severity e = e\<lparr>severity := classify_severity (sint (total_casualties e))\<rparr>"

subsection \<open>The control panel\<close>

text \<open>
  The values of the widgets, lines 291-325. \<open>target_magnitude\<close> is the slider variable
  \<open>magnitude\<close> (renamed: the column has that name); \<open>metric\<close> is one of the three
  column names that the select box offers.
\<close>

datatype metric = Total_casualties | Deaths | Injuries

record controls =
  target_magnitude :: real
  year_range :: "int \<times> int"
  event_type :: string
  severity_filter :: "string list"
  only_with_casualties :: bool
  metric :: metric

subsection \<open>Filter logic, lines 330-345\<close>

definition mag_window :: real where
  "mag_window = 0.25"

text \<open>\<open>Series.between(left, right)\<close>, inclusive on both sides by default.\<close>

definition between :: "real \<Rightarrow> real \<Rightarrow> real \<Rightarrow> bool" where
  "between x left right = (left \<le> x \<and> x \<le> right)"

definition magnitude_mask :: "controls \<Rightarrow> event \<Rightarrow> bool" where
  "magnitude_mask c e =
     between (magnitude e) (target_magnitude c - mag_window) (target_magnitude c + mag_window)"

definition mask :: "controls \<Rightarrow> event \<Rightarrow> bool" where
  "mask c e =
     (year e \<ge> fst (year_range c) \<and> year e \<le> snd (year_range c)
      \<and> magnitude_mask c e
      \<and> severity e \<in> set (severity_filter c))"

definition filter_logic :: "bool \<Rightarrow> controls \<Rightarrow> event list \<Rightarrow> event list" where
  "filter_logic has_tsunami c df =
     (let f = filter (mask c) df;
          f = (if only_with_casualties c then filter (\<lambda>e. sint (total_casualties e) > 0) f
               else f)
      in if has_tsunami then
           if str_in ''only'' (lower (event_type c)) then
             filter (\<lambda>e. tsunami_flag e = Some 0) f
           else if str_in ''tsunami'' (lower (event_type c)) then
             filter (\<lambda>e. tsunami_flag e = Some 1) f
           else f
         else f)"

subsection \<open>Display area, lines 350-425\<close>

text \<open>The one-row table that replaces an empty result, lines 353-366.\<close>

definition placeholder :: "bool \<Rightarrow> controls \<Rightarrow> event" where
  "placeholder has_tsunami c =
     \<lparr>event_id = None, date = None, year = fst (year_range c), location_name = ''No data'',
      latitude = 0, longitude = 0, magnitude = target_magnitude c, depth_km = 0,
      deaths = 0, injuries = 0, total_casualties = 0,
      tsunami_flag = (if has_tsunami then Some 0 else None), severity = ''Minor''\<rparr>"

definition display_frame :: "bool \<Rightarrow> controls \<Rightarrow> event list \<Rightarrow> event list" where
  "display_frame has_tsunami c df =
     (let f = filter_logic has_tsunami c df
      in if f = [] then [placeholder has_tsunami c] else f)"

definition column :: "metric \<Rightarrow> event \<Rightarrow> 64 word" where
  "column m e =
     (case m of Total_casualties \<Rightarrow> total_casualties e | Deaths \<Rightarrow> deaths e
      | Injuries \<Rightarrow> injuries e)"

text \<open>
  Line 387, \<open>f.loc[f[metric].idxmax()]\<close>: the first row that holds the largest value of
  the metric (int64, compared signed); \<open>idxmax\<close> raises ValueError on an empty table.
\<close>

fun idxmax_from :: "metric \<Rightarrow> event \<Rightarrow> event list \<Rightarrow> event" where
  "idxmax_from m best [] = best"
| "idxmax_from m best (e # es) =
     idxmax_from m (if sint (column m e) > sint (column m best) then e else best) es"

definition peak :: "metric \<Rightarrow> event list \<Rightarrow> error + event" where
  "peak m f =
     (case f of [] \<Rightarrow> Inl ValueError_empty_argmax | e # es \<Rightarrow> Inr (idxmax_from m e es))"

text \<open>The four indicators of lines 422-425; an int64 column sum wraps.\<close>

definition kpi_total_casualties :: "event list \<Rightarrow> int" where
  "kpi_total_casualties f = sint (sum_list (map total_casualties f))"

definition kpi_fatalities :: "event list \<Rightarrow> int" where
  "kpi_fatalities f = sint (sum_list (map deaths f))"

definition kpi_injuries :: "event list \<Rightarrow> int" where
  "kpi_injuries f = sint (sum_list (map injuries f))"

definition kpi_event_count :: "event list \<Rightarrow> nat" where
  "kpi_event_count f = length f"

subsection \<open>Severity check boxes, lines 306-321\<close>

text \<open>
  \<open>st.session_state\<close> is a dictionary from widget keys to values; reading a missing key
  raises KeyError.
\<close>

type_synonym session_state = "string \<rightharpoonup> bool"

definition options :: "string list" where
  "options = [''Minor'', ''Moderate'', ''Severe'']"

definition setdefault :: "string \<Rightarrow> bool \<Rightarrow> session_state \<Rightarrow> session_state" where
  "setdefault k v st = (case st k of None \<Rightarrow> st(k \<mapsto> v) | Some _ \<Rightarrow> st)"

fun getitems :: "session_state \<Rightarrow> string list \<Rightarrow> error + bool list" where
  "getitems st [] = Inr []"
| "getitems st (k # ks) =
     (case st k of
        None \<Rightarrow> Inl (KeyError k)
      | Some b \<Rightarrow> (case getitems st ks of Inl err \<Rightarrow> Inl err | Inr bs \<Rightarrow> Inr (b # bs)))"

text \<open>\<open>enforce_one\<close>, lines 313-316: \<open>sum\<close> counts the boxes that are ticked.\<close>

definition enforce_one :: "string \<Rightarrow> session_state \<Rightarrow> error + session_state" where
  "enforce_one selected_opt st =
     (case getitems st options of
        Inl err \<Rightarrow> Inl err
      | Inr bs \<Rightarrow>
          Inr (if sum_list (map of_bool bs) = (0::nat) then st(selected_opt \<mapsto> True)
               else st))"

text \<open>
  One run of the script over lines 310-321: the defaults are set, the boxes are drawn, and
  \<open>severity_filter\<close> is read off the session state.
\<close>

definition severity_panel :: "session_state \<Rightarrow> error + session_state \<times> string list" where
  "severity_panel st =
     (let st = fold (\<lambda>opt. setdefault opt True) options st
      in case getitems st options of
           Inl err \<Rightarrow> Inl err
         | Inr bs \<Rightarrow> Inr (st, map fst (filter snd (zip options bs))))"

text \<open>
  The user flips the check box with key \<open>opt\<close>: Streamlit stores the new value under the
  key, then calls \<open>on_change\<close> with \<open>args\<close>, that is \<open>enforce_one(opt)\<close>, and then runs
  the script again.
\<close>

definition checkbox_changed :: "string \<Rightarrow> session_state \<Rightarrow> error + session_state" where
  "checkbox_changed opt st =
     (case st opt of
        None \<Rightarrow> Inl (KeyError opt)
      | Some b \<Rightarrow> enforce_one opt (st(opt \<mapsto> \<not> b)))"

text \<open>
  A session: the script runs, and for each click it handles the change and runs again.
  The result is the state and the \<open>severity_filter\<close> of the last run.
\<close>

fun interactions ::
  "string list \<Rightarrow> session_state \<Rightarrow> error + session_state \<times> string list" where
  "interactions [] st = severity_panel st"
| "interactions (opt # opts) st =
     (case severity_panel st of
        Inl err \<Rightarrow> Inl err
      | Inr (st', sf) \<Rightarrow>
          (case checkbox_changed opt st' of
             Inl err \<Rightarrow> Inl err
           | Inr st'' \<Rightarrow> interactions opts st''))"

section \<open>Auxiliary definitions\<close>

subsection \<open>The transform on one row\<close>

text \<open>
  Every step of lines 192-217 works row by row. These functions are the same steps on a
  single row; the lemmas below show that the tables of the transform consist of them.
\<close>

definition numeric_and_date_row :: "pandas \<Rightarrow> row \<Rightarrow> row" where
  "numeric_and_date_row pd r =
     (let r = fold (\<lambda>c r. set_item c (to_numeric (get r c)) r) required r;
          r = set_item ''month'' (astype_int (fillna (Num 1) (get r ''month''))) r;
          r = set_item ''day'' (astype_int (fillna (Num 1) (get r ''day''))) r
      in set_item ''date''
           (to_datetime_ymd pd (get r ''year'') (get r ''month'') (get r ''day'')) r)"

definition name_and_casualties_row :: "pandas \<Rightarrow> row \<Rightarrow> row" where
  "name_and_casualties_row pd r =
     (let r = set_item ''location_name''
                 (Str (strip (astype_str pd (get r ''location_name'')))) r;
          r = set_item ''deaths'' (astype_int (fillna (Num 0) (get r ''deaths''))) r;
          r = set_item ''injuries'' (astype_int (fillna (Num 0) (get r ''injuries''))) r
      in set_item ''total_casualties'' (add_int (get r ''deaths'') (get r ''injuries'')) r)"

definition tsunami_row :: "bool \<Rightarrow> row \<Rightarrow> row" where
  "tsunami_row has_column r =
     (if has_column then
        set_item ''tsunami_flag''
          (astype_int (fillna (Num 0) (to_numeric (replace_tokens (get r ''tsunami_flag''))))) r
      else r)"

definition select_row :: "string list \<Rightarrow> row \<Rightarrow> row" where
  "select_row ks r = concat (map (\<lambda>k. filter (\<lambda>(c, x). c = k) r) ks)"

definition cleaned_row :: "pandas \<Rightarrow> bool \<Rightarrow> row \<Rightarrow> row" where
  "cleaned_row pd has_column r =
     tsunami_row has_column (name_and_casualties_row pd (numeric_and_date_row pd r))"

text \<open>The columns that line 226 keeps.\<close>

definition kept_columns :: "pandas \<Rightarrow> csv \<Rightarrow> string list" where
  "kept_columns pd file =
     filter (\<lambda>c. c \<in> set (columns (tsunami_column
        (name_and_casualties pd (numeric_and_date pd (renamed file)))))) final_cols"

subsection \<open>The invariant of the check boxes\<close>

text \<open>All three keys are in the session state and at least one box is ticked.\<close>

definition some_selected :: "session_state \<Rightarrow> bool" where
  "some_selected st =
     (case getitems st options of Inl err \<Rightarrow> False | Inr bs \<Rightarrow> True \<in> set bs)"

subsection \<open>Further example data\<close>

text \<open>The table that the transform makes of \<open>example_raw\<close>.\<close>

definition example_clean :: frame where
  "example_clean =
     \<lparr>columns =
        [''date'', ''year'', ''location_name'', ''latitude'', ''longitude'',
         ''magnitude'', ''depth_km'', ''deaths'', ''injuries'', ''total_casualties''],
      rows =
        [(0, [(''date'', Timestamp 19060418), (''year'', Num 1906),
              (''location_name'', Str ''SAN FRANCISCO''), (''latitude'', Num 37.75),
              (''longitude'', Num (-122.45)), (''magnitude'', Num 7.9), (''depth_km'', Num 8),
              (''deaths'', I64 3000), (''injuries'', I64 0), (''total_casualties'', I64 3000)]),
         (2, [(''date'', Timestamp 19500601), (''year'', Num 1950),
              (''location_name'', Str ''ASSAM''), (''latitude'', Num 28.5),
              (''longitude'', Num 96.5), (''magnitude'', Num 6.7), (''depth_km'', Num 15),
              (''deaths'', I64 5), (''injuries'', I64 0), (''total_casualties'', I64 5)])]\<rparr>"



definition no_name_raw :: csv where
  "no_name_raw =
     \<lparr>header =
        [''Year'', ''Month'', ''Date'', ''Latitude'', ''Longitude'', ''Focal Depth (km)'',
         ''Magnitude'', ''Deaths'', ''Injuries''],
      body =
        [[Num 1906, Num 4, Num 18, Num 37.75, Num (-122.45), Num 8, Num 7.9, Num 3000,
          Num 0]]\<rparr>"

text \<open>
  The filter of the specification's example, and an event of magnitude \<open>m\<close> in 1950
  with five casualties.
\<close>

definition example_controls :: controls where
  "example_controls =
     \<lparr>target_magnitude = 6.5, year_range = (1900, 2020), event_type = ''All earthquakes'',
      severity_filter = [''Minor'', ''Moderate'', ''Severe''], only_with_casualties = True,
      metric = Total_casualties\<rparr>"

definition example_event :: "real \<Rightarrow> event" where
  "example_event m =
     add_severity
       \<lparr>event_id = None, date = Some 19500601, year = 1950, location_name = ''ASSAM'',
        latitude = 28.5, longitude = 96.5, magnitude = m, depth_km = 15,
        deaths = 5, injuries = 0, total_casualties = 5,
        tsunami_flag = Some 0, severity = []\<rparr>"

section \<open>Lemmas about tables\<close>

lemma map_of_overwrite_other:
  "k' \<noteq> k \<Longrightarrow> map_of (map (\<lambda>(c, x). (c, if c = k then v else x)) r) k' = map_of r k'"
  by (induction r) auto

lemma map_of_overwrite_same:
  "k \<in> fst ` set r \<Longrightarrow> map_of (map (\<lambda>(c, x). (c, if c = k then v else x)) r) k = Some v"
  by (induction r) auto

lemma map_of_set_item:
  "map_of (set_item k v r) k' = (if k' = k then Some v else map_of r k')"
proof (cases "k \<in> fst ` set r")
  case True
  then show ?thesis
    by (simp add: set_item_def map_of_overwrite_other map_of_overwrite_same)
next
  case False
  then have "map_of r k = None" by (simp add: map_of_eq_None_iff)
  with False show ?thesis by (auto simp: set_item_def map_add_def split: option.splits)
qed

lemma get_set_item: "get (set_item k v r) k' = (if k' = k then v else get r k')"
  by (simp add: get_def map_of_set_item)

lemma rows_assign: "rows (assign k f df) = map (apsnd (\<lambda>r. set_item k (f r) r)) (rows df)"
  by (simp add: assign_def apsnd_def map_prod_def)

lemma columns_assign: "set (columns (assign k f df)) = insert k (set (columns df))"
  by (auto simp: assign_def)

lemma rows_fold_assign:
  "rows (fold (\<lambda>c. assign c (F c)) cs df)
     = map (apsnd (fold (\<lambda>c r. set_item c (F c r) r) cs)) (rows df)"
proof (induction cs arbitrary: df)
  case Nil
  then show ?case by (simp add: apsnd_def map_prod_def)
next
  case (Cons c cs)
  show ?case
    by (simp add: Cons.IH rows_assign comp_def apsnd_def map_prod_def case_prod_beta)
qed

lemma columns_fold_assign:
  "set (columns (fold (\<lambda>c. assign c (F c)) cs df)) = set cs \<union> set (columns df)"
  by (induction cs arbitrary: df) (auto simp: columns_assign)

lemma rows_numeric_and_date:
  "rows (numeric_and_date pd df) = map (apsnd (numeric_and_date_row pd)) (rows df)"
  by (simp add: numeric_and_date_def numeric_and_date_row_def Let_def rows_assign
      rows_fold_assign comp_def apsnd_def map_prod_def case_prod_beta)

lemma columns_numeric_and_date:
  "set (columns (numeric_and_date pd df)) = {''date''} \<union> set required \<union> set (columns df)"
  by (auto simp: numeric_and_date_def Let_def columns_assign columns_fold_assign required_def)

lemma rows_name_and_casualties:
  "rows (name_and_casualties pd df) = map (apsnd (name_and_casualties_row pd)) (rows df)"
  by (simp add: name_and_casualties_def name_and_casualties_row_def Let_def rows_assign
      comp_def apsnd_def map_prod_def case_prod_beta)

lemma columns_name_and_casualties:
  "set (columns (name_and_casualties pd df))
     = {''location_name'', ''deaths'', ''injuries'', ''total_casualties''} \<union> set (columns df)"
  by (auto simp: name_and_casualties_def Let_def columns_assign)

lemma rows_tsunami_column:
  "rows (tsunami_column df)
     = map (apsnd (tsunami_row (''tsunami_flag'' \<in> set (columns df)))) (rows df)"
  by (simp add: tsunami_column_def tsunami_row_def rows_assign apsnd_def map_prod_def)





lemma rows_select: "rows (select ks df) = map (apsnd (select_row ks)) (rows df)"
  by (simp add: select_def select_row_def apsnd_def map_prod_def case_prod_beta)

lemma rows_valid_and_final:
  "rows (valid_and_final df)
     = map (apsnd (select_row (filter (\<lambda>c. c \<in> set (columns df)) final_cols)))
         (filter (\<lambda>(i, r). list_all (\<lambda>k. get r k \<noteq> NaN)
            [''date'', ''year'', ''latitude'', ''longitude'', ''magnitude'', ''depth_km''])
            (rows df))"
  by (simp add: valid_and_final_def Let_def rows_select dropna_def)

lemma set_rows_sort_values: "set (rows (sort_values k df)) = set (rows df)"
  by (simp add: sort_values_def)

text \<open>The cells of a row after lines 192-217, in terms of the raw cells.\<close>

lemma get_cleaned_row:
  "get (cleaned_row pd b r) ''deaths''
     = astype_int (fillna (Num 0) (to_numeric (get r ''deaths'')))"
  "get (cleaned_row pd b r) ''injuries''
     = astype_int (fillna (Num 0) (to_numeric (get r ''injuries'')))"
  "get (cleaned_row pd b r) ''total_casualties''
     = add_int (get (cleaned_row pd b r) ''deaths'') (get (cleaned_row pd b r) ''injuries'')"
  "get (cleaned_row pd b r) ''year'' = to_numeric (get r ''year'')"
  "get (cleaned_row pd b r) ''latitude'' = to_numeric (get r ''latitude'')"
  "get (cleaned_row pd b r) ''longitude'' = to_numeric (get r ''longitude'')"
  "get (cleaned_row pd b r) ''magnitude'' = to_numeric (get r ''magnitude'')"
  "get (cleaned_row pd b r) ''depth_km'' = to_numeric (get r ''depth_km'')"
  by (simp_all add: cleaned_row_def tsunami_row_def name_and_casualties_row_def
      numeric_and_date_row_def Let_def required_def get_set_item)

lemma clean_frame_Inr:
  assumes "clean_frame pd file = Inr out"
  shows "out = sort_values ''date'' (valid_and_final (tsunami_column
           (name_and_casualties pd (numeric_and_date pd (renamed file)))))"
  using assms by (simp add: clean_frame_def Let_def split: if_splits)

text \<open>
  Every row of the result comes from the raw row with the same index label, which passed
  \<open>dropna\<close>.
\<close>

lemma clean_frame_rows:
  assumes "clean_frame pd file = Inr out" and "(i, r') \<in> set (rows out)"
  obtains r where "(i, r) \<in> set (rows (renamed file))"
    and "r' = select_row (kept_columns pd file)
                (cleaned_row pd (''tsunami_flag'' \<in> set (columns (renamed file))) r)"
    and "list_all
           (\<lambda>k. get (cleaned_row pd (''tsunami_flag'' \<in> set (columns (renamed file))) r) k \<noteq> NaN)
           [''date'', ''year'', ''latitude'', ''longitude'', ''magnitude'', ''depth_km'']"
proof -
  define df4 where "df4 = name_and_casualties pd (numeric_and_date pd (renamed file))"
  define b where "b = (''tsunami_flag'' \<in> set (columns (renamed file)))"
  have ts: "(''tsunami_flag'' \<in> set (columns df4)) = b"
    by (simp add: df4_def b_def columns_name_and_casualties columns_numeric_and_date
        required_def)
  have r4: "rows (tsunami_column df4) = map (apsnd (cleaned_row pd b)) (rows (renamed file))"
    by (simp add: rows_tsunami_column ts)
      (simp add: df4_def rows_name_and_casualties rows_numeric_and_date cleaned_row_def
        comp_def apsnd_def map_prod_def case_prod_beta)
  have "set (rows out) = set (rows (valid_and_final (tsunami_column df4)))"
    unfolding clean_frame_Inr [OF assms(1)] df4_def by (rule set_rows_sort_values)
  with assms(2) have "(i, r') \<in> set (rows (valid_and_final (tsunami_column df4)))"
    by simp
  then obtain r0 where r0: "(i, r0) \<in> set (rows (tsunami_column df4))"
    and ok: "list_all (\<lambda>k. get r0 k \<noteq> NaN)
           [''date'', ''year'', ''latitude'', ''longitude'', ''magnitude'', ''depth_km'']"
    and r': "r' = select_row (kept_columns pd file) r0"
    by (auto simp: rows_valid_and_final kept_columns_def df4_def)
  from r0 obtain r where "(i, r) \<in> set (rows (renamed file))" "r0 = cleaned_row pd b r"
    by (auto simp: r4)
  with ok r' show ?thesis using that by (simp add: b_def)
qed




text \<open>The index labels of the table as read are the positions of the rows in the file.\<close>

lemma index_renamed: "map fst (rows (renamed file)) = [0..<length (body file)]"
  by (simp add: renamed_def Let_def rename_def map_columns_def read_csv_def comp_def
      case_prod_beta split: list.splits)

lemma renamed_row_unique:
  assumes "(i, r) \<in> set (rows (renamed file))" "(i, r1) \<in> set (rows (renamed file))"
  shows "r1 = r"
proof -
  have "distinct (map fst (rows (renamed file)))" by (simp add: index_renamed)
  then show ?thesis using assms by (metis eq_key_imp_eq_value)
qed

lemma clean_frame_example: "clean_frame example_pandas example_raw = Inr example_clean"
  by code_simp

lemma renamed_example:
  "rows (renamed example_raw) =
      [(0, [(''year'', Num 1906), (''month'', Num 4), (''day'', Num 18),
            (''location_name'', Str ''SAN FRANCISCO''), (''latitude'', Num 37.75),
            (''longitude'', Num (-122.45)), (''depth_km'', Num 8),
            (''magnitude'', Num 7.9), (''deaths'', Num 3000), (''injuries'', Num 0)]),
       (1, [(''year'', Num 1905), (''month'', NaN), (''day'', NaN),
            (''location_name'', Str ''KANGRA''), (''latitude'', Num 33),
            (''longitude'', Num 76), (''depth_km'', Num 20),
            (''magnitude'', Str ''strong''), (''deaths'', Num 19000), (''injuries'', NaN)]),
       (2, [(''year'', Num 1950), (''month'', Num 6), (''day'', NaN),
            (''location_name'', Str '' ASSAM ''), (''latitude'', Num 28.5),
            (''longitude'', Num 96.5), (''depth_km'', Num 15), (''magnitude'', Num 6.7),
            (''deaths'', Num 5), (''injuries'', NaN)])]"
  by code_simp

section \<open>Lemmas about the dashboard\<close>


text \<open>A weaker test keeps at least as many rows.\<close>

lemma weaker_test_keeps_more:
  assumes "\<forall>e \<in> set df. keep e \<longrightarrow> keep' e"
  shows "length (filter keep df) \<le> length (filter keep' df)"
  using assms by (induction df) auto

text \<open>The filter of lines 332-345 as one conjunction.\<close>

lemma filter_logic_eq:
  "filter_logic h c df =
     filter (\<lambda>e. mask c e
       \<and> (if only_with_casualties c then sint (total_casualties e) > 0 else True)
       \<and> (if h then
             if str_in ''only'' (lower (event_type c)) then tsunami_flag e = Some 0
             else if str_in ''tsunami'' (lower (event_type c)) then tsunami_flag e = Some 1
             else True
           else True)) df"
  by (auto simp: filter_logic_def Let_def intro: filter_cong)

lemma some_selectedE:
  assumes "some_selected st"
  obtains a b c where "st ''Minor'' = Some a" "st ''Moderate'' = Some b"
    "st ''Severe'' = Some c" "a \<or> b \<or> c"
  using assms unfolding some_selected_def options_def
  by (auto split: option.splits sum.splits)

lemma severity_panel_selected:
  assumes "some_selected st"
  shows "\<exists>sf. severity_panel st = Inr (st, sf) \<and> sf \<noteq> [] \<and> set sf \<subseteq> set options"
proof -
  from assms obtain a b c where
    st: "st ''Minor'' = Some a" "st ''Moderate'' = Some b" "st ''Severe'' = Some c"
    and abc: "a \<or> b \<or> c"
    by (rule some_selectedE)
  have "fold (\<lambda>opt. setdefault opt True) options st = st"
    by (simp add: options_def setdefault_def st)
  moreover have "getitems st options = Inr [a, b, c]"
    by (simp add: options_def st)
  ultimately show ?thesis using abc
    by (auto simp: severity_panel_def options_def)
qed

lemma severity_panel_empty:
  "\<exists>st. severity_panel Map.empty = Inr (st, options) \<and> some_selected st"
  by (simp add: severity_panel_def options_def setdefault_def some_selected_def)

lemma checkbox_changed_selected:
  assumes "some_selected st" "opt \<in> set options"
  shows "\<exists>st'. checkbox_changed opt st = Inr st' \<and> some_selected st'"
proof -
  from assms(1) obtain a b c where
    st: "st ''Minor'' = Some a" "st ''Moderate'' = Some b" "st ''Severe'' = Some c"
    and abc: "a \<or> b \<or> c"
    by (rule some_selectedE)
  from assms(2) consider "opt = ''Minor''" | "opt = ''Moderate''" | "opt = ''Severe''"
    by (auto simp: options_def)
  then show ?thesis
  proof cases
    case 1
    then show ?thesis using st abc
      by (cases a; cases b; cases c)
        (simp_all add: checkbox_changed_def enforce_one_def options_def some_selected_def)
  next
    case 2
    then show ?thesis using st abc
      by (cases a; cases b; cases c)
        (simp_all add: checkbox_changed_def enforce_one_def options_def some_selected_def)
  next
    case 3
    then show ?thesis using st abc
      by (cases a; cases b; cases c)
        (simp_all add: checkbox_changed_def enforce_one_def options_def some_selected_def)
  qed
qed

text \<open>Unticking the only ticked box leaves the session state as it was.\<close>

lemma last_box_reverted:
  assumes "some_selected st" "severity_panel st = Inr (st', [opt])"
  shows "checkbox_changed opt st = Inr st"
proof -
  from assms(1) obtain a b c where
    st: "st ''Minor'' = Some a" "st ''Moderate'' = Some b" "st ''Severe'' = Some c"
    and abc: "a \<or> b \<or> c"
    by (rule some_selectedE)
  have same: "fold (\<lambda>opt. setdefault opt True) options st = st"
    by (simp add: options_def setdefault_def st)
  have items: "getitems st options = Inr [a, b, c]"
    by (simp add: options_def st)
  from assms(2) have sf: "map fst (filter snd (zip options [a, b, c])) = [opt]"
    by (simp add: severity_panel_def same items)
  have upd: "st(k \<mapsto> False, k \<mapsto> True) = st" if "st k = Some True" for k
    using that by (simp add: fun_upd_idem)
  from sf st show ?thesis
    by (cases a; cases b; cases c)
      (auto simp: options_def checkbox_changed_def enforce_one_def upd)
qed

lemma interactions_selected:
  assumes "some_selected st" "set opts \<subseteq> set options"
  shows "\<exists>st' sf. interactions opts st = Inr (st', sf) \<and> sf \<noteq> [] \<and> set sf \<subseteq> set options
           \<and> some_selected st' \<and> severity_panel st' = Inr (st', sf)"
  using assms
proof (induction opts arbitrary: st)
  case Nil
  from severity_panel_selected [OF Nil.prems(1)] Nil.prems(1) show ?case by auto
next
  case (Cons opt opts)
  from severity_panel_selected [OF Cons.prems(1)]
  obtain sf where sp: "severity_panel st = Inr (st, sf)" by blast
  from Cons.prems(2) have "opt \<in> set options" by simp
  from checkbox_changed_selected [OF Cons.prems(1) this]
  obtain st' where cc: "checkbox_changed opt st = Inr st'" and sel: "some_selected st'"
    by blast
  from Cons.prems(2) have "set opts \<subseteq> set options" by simp
  from Cons.IH [OF sel this] show ?case by (simp add: sp cc)
qed

section \<open>The empty filter result\<close>

text \<open>
  When the filter leaves no row, the display area works on the one-row placeholder: its
  sums are zero and its peak event is the placeholder, and the event count, which is the
  length of the table, is one.
\<close>

lemma empty_result_shows_one_row:
  assumes "filter_logic h c df = []"
  shows "display_frame h c df = [placeholder h c]"
    and "kpi_event_count (display_frame h c df) = 1"
    and "kpi_total_casualties (display_frame h c df) = 0"
    and "kpi_fatalities (display_frame h c df) = 0"
    and "kpi_injuries (display_frame h c df) = 0"
    and "peak m (display_frame h c df) = Inr (placeholder h c)"
  using assms
  by (simp_all add: display_frame_def kpi_event_count_def kpi_total_casualties_def
      kpi_fatalities_def kpi_injuries_def peak_def placeholder_def)

text \<open>
  C1. Claimed: when the filter yields no row, filtering does not raise, and the indicators
  over the placeholder give an event count of 0, sums 0 and the placeholder as peak event.
  On the table with the single event of magnitude 7.0 and the example filter around 6.5,
  the filter yields no row, the sums are 0 and the peak event is the placeholder, and the
  event count is 1.
\<close>

theorem event_count_of_empty_result:
  "filter_logic True example_controls [example_event 7.0] = []
   \<and> display_frame True example_controls [example_event 7.0]
        = [placeholder True example_controls]
   \<and> kpi_event_count (display_frame True example_controls [example_event 7.0]) = 1
   \<and> kpi_total_casualties (display_frame True example_controls [example_event 7.0]) = 0
   \<and> kpi_fatalities (display_frame True example_controls [example_event 7.0]) = 0
   \<and> kpi_injuries (display_frame True example_controls [example_event 7.0]) = 0
   \<and> peak (metric example_controls) (display_frame True example_controls [example_event 7.0])
        = Inr (placeholder True example_controls)"
proof -
  have "filter_logic True example_controls [example_event 7.0] = []"
    by (simp add: filter_logic_def mask_def magnitude_mask_def between_def
      mag_window_def example_controls_def example_event_def add_severity_def)
  then show ?thesis
    by (simp add: display_frame_def kpi_event_count_def kpi_total_casualties_def
      kpi_fatalities_def kpi_injuries_def peak_def placeholder_def)
qed

section \<open>Severity classification\<close>

text \<open>
  C2. The classification depends on \<open>total_casualties\<close> alone: Severe from 1000 on,
  Moderate from 100 up to 999, Minor below 100; so 1000 is Severe, 999 and 100 are
  Moderate, 99 and 0 are Minor.
\<close>

theorem classify_severity_thresholds:
  "(1000 \<le> t \<longrightarrow> classify_severity t = ''Severe'')
   \<and> (100 \<le> t \<and> t < 1000 \<longrightarrow> classify_severity t = ''Moderate'')
   \<and> (t < 100 \<longrightarrow> classify_severity t = ''Minor'')"
  by (simp add: classify_severity_def)

theorem classify_severity_thresholds_witness:
  "classify_severity 1000 = ''Severe'' \<and> classify_severity 999 = ''Moderate''
   \<and> classify_severity 100 = ''Moderate'' \<and> classify_severity 99 = ''Minor''
   \<and> classify_severity 0 = ''Minor''"
  using classify_severity_thresholds [of 1000] classify_severity_thresholds [of 999]
    classify_severity_thresholds [of 100] classify_severity_thresholds [of 99]
    classify_severity_thresholds [of 0]
  by simp

section \<open>Total casualties\<close>



section \<open>The magnitude window\<close>


section \<open>Rows that are dropped\<close>

text \<open>
  C5. For every raw file that the normalizer accepts, a raw row whose cell under
  \<open>magnitude\<close>, \<open>latitude\<close>, \<open>longitude\<close>, \<open>depth_km\<close> or \<open>year\<close> (the column names
  after renaming) is no number is absent from the canonical table: no row of the result
  carries its index label.
\<close>

theorem bad_rows_are_dropped:
  assumes "clean_frame pd file = Inr out"
    and "(i, r) \<in> set (rows (renamed file))"
    and "k \<in> set [''magnitude'', ''latitude'', ''longitude'', ''depth_km'', ''year'']"
    and "to_numeric (get r k) = NaN"
  shows "i \<notin> fst ` set (rows out)"
proof
  assume "i \<in> fst ` set (rows out)"
  then obtain r' where "(i, r') \<in> set (rows out)" by auto
  with assms(1) obtain r1 b where r1: "(i, r1) \<in> set (rows (renamed file))"
    and ok: "list_all (\<lambda>k. get (cleaned_row pd b r1) k \<noteq> NaN)
           [''date'', ''year'', ''latitude'', ''longitude'', ''magnitude'', ''depth_km'']"
    by (rule clean_frame_rows)
  from r1 assms(2) have "r1 = r" by (rule renamed_row_unique [rotated])
  with ok assms(3,4) show False by (auto simp: get_cleaned_row)
qed

theorem bad_rows_are_dropped_witness:
  "\<exists>out r. clean_frame example_pandas example_raw = Inr out
     \<and> (1, r) \<in> set (rows (renamed example_raw))
     \<and> ''magnitude'' \<in> set [''magnitude'', ''latitude'', ''longitude'', ''depth_km'', ''year'']
     \<and> to_numeric (get r ''magnitude'') = NaN
     \<and> 1 \<notin> fst ` set (rows out)"
proof -
  define r where "r = snd (rows (renamed example_raw) ! 1)"
  have mem: "(1, r) \<in> set (rows (renamed example_raw))"
    by (simp add: r_def renamed_example)
  have k: "''magnitude'' \<in> set [''magnitude'', ''latitude'', ''longitude'', ''depth_km'', ''year'']"
    by simp
  have bad: "to_numeric (get r ''magnitude'') = NaN"
    by (simp add: r_def renamed_example get_def to_numeric_def)
  from bad_rows_are_dropped [OF clean_frame_example mem k bad] mem bad clean_frame_example
  show ?thesis by auto
qed

section \<open>Normalizing twice\<close>



section \<open>Narrowing the year range\<close>

text \<open>
  C7. Replacing the year range \<open>(a, b)\<close> by \<open>(a', b')\<close> with \<open>a \<le> a'\<close> and
  \<open>b' \<le> b\<close> never increases the number of rows that the filter returns, nor the event
  count that the display area shows.
\<close>

theorem narrowing_year_range:
  assumes "a \<le> a'" "b' \<le> b"
  shows "kpi_event_count (filter_logic h (c\<lparr>year_range := (a', b')\<rparr>) df)
           \<le> kpi_event_count (filter_logic h (c\<lparr>year_range := (a, b)\<rparr>) df)
     \<and> kpi_event_count (display_frame h (c\<lparr>year_range := (a', b')\<rparr>) df)
           \<le> kpi_event_count (display_frame h (c\<lparr>year_range := (a, b)\<rparr>) df)"
proof -
  have le: "length (filter_logic h (c\<lparr>year_range := (a', b')\<rparr>) df)
           \<le> length (filter_logic h (c\<lparr>year_range := (a, b)\<rparr>) df)"
    unfolding filter_logic_eq
    using assms by (intro weaker_test_keeps_more) (auto simp: mask_def magnitude_mask_def)
  then show ?thesis
    by (auto simp: kpi_event_count_def display_frame_def Let_def Suc_le_eq)
qed

theorem narrowing_year_range_witness:
  "(1900::int) \<le> 1960 \<and> (2000::int) \<le> 2020
   \<and> kpi_event_count (filter_logic False (example_controls\<lparr>year_range := (1960, 2000)\<rparr>)
        [example_event 6.7, example_event 7.0]) = 0
   \<and> kpi_event_count (filter_logic False (example_controls\<lparr>year_range := (1900, 2020)\<rparr>)
        [example_event 6.7, example_event 7.0]) = 1"
  using narrowing_year_range [of 1900 1960 2000 2020 False example_controls
      "[example_event 6.7, example_event 7.0]"]
  by (simp add: kpi_event_count_def filter_logic_def mask_def magnitude_mask_def between_def
      mag_window_def example_controls_def example_event_def add_severity_def
      classify_severity_def)

section \<open>The severity classes never become empty\<close>

text \<open>
  C8. In a session that starts with an empty session state, after any sequence of clicks
  on the three check boxes no run of the script raises, and \<open>severity_filter\<close> holds at
  least one of Minor, Moderate and Severe when the filter runs; when it holds exactly one
  class, the click that unticks it is reverted: the session state stays as it was.
\<close>

theorem severity_never_empty:
  "set clicks \<subseteq> set options \<Longrightarrow>
     \<exists>st sf. interactions clicks Map.empty = Inr (st, sf) \<and> sf \<noteq> [] \<and> set sf \<subseteq> set options
       \<and> (\<forall>opt. sf = [opt] \<longrightarrow> checkbox_changed opt st = Inr st)"
proof -
  assume sub: "set clicks \<subseteq> set options"
  have "\<exists>st sf. interactions clicks Map.empty = Inr (st, sf) \<and> sf \<noteq> []
      \<and> set sf \<subseteq> set options \<and> some_selected st \<and> severity_panel st = Inr (st, sf)"
  proof (cases clicks)
    case Nil
    obtain st where sp: "severity_panel Map.empty = Inr (st, options)"
      and sel: "some_selected st"
      using severity_panel_empty by blast
    from severity_panel_selected [OF sel] sel sp Nil show ?thesis
      by (auto simp: severity_panel_def options_def setdefault_def)
  next
    case (Cons opt opts)
    obtain st where sp: "severity_panel Map.empty = Inr (st, options)"
      and sel: "some_selected st"
      using severity_panel_empty by blast
    from sub Cons have "opt \<in> set options" by simp
    from checkbox_changed_selected [OF sel this]
    obtain st' where cc: "checkbox_changed opt st = Inr st'" and sel': "some_selected st'"
      by blast
    from sub Cons have "set opts \<subseteq> set options" by simp
    from interactions_selected [OF sel' this] show ?thesis by (simp add: Cons sp cc)
  qed
  then obtain st sf where res: "interactions clicks Map.empty = Inr (st, sf)" "sf \<noteq> []"
    "set sf \<subseteq> set options" and sel: "some_selected st"
    and sp: "severity_panel st = Inr (st, sf)"
    by blast
  have "checkbox_changed opt st = Inr st" if "sf = [opt]" for opt
    using last_box_reverted [OF sel] sp that by simp
  with res show ?thesis by blast
qed

theorem severity_never_empty_witness:
  "set [''Minor'', ''Moderate'', ''Severe''] \<subseteq> set options
   \<and> (\<exists>st. interactions [''Minor'', ''Moderate'', ''Severe''] Map.empty = Inr (st, [''Severe''])
         \<and> checkbox_changed ''Severe'' st = Inr st)"
proof -
  have sub: "set [''Minor'', ''Moderate'', ''Severe''] \<subseteq> set options"
    by (simp add: options_def)
  from severity_never_empty [OF sub] obtain st sf where
    res: "interactions [''Minor'', ''Moderate'', ''Severe''] Map.empty = Inr (st, sf)"
    and rev: "\<forall>opt. sf = [opt] \<longrightarrow> checkbox_changed opt st = Inr st"
    by blast
  have "\<exists>st. interactions [''Minor'', ''Moderate'', ''Severe''] Map.empty
          = Inr (st, [''Severe''])"
    by (simp add: severity_panel_def options_def setdefault_def checkbox_changed_def
        enforce_one_def)
  with res have "sf = [''Severe'']" by auto
  with res rev sub show ?thesis by auto
qed

section \<open>A raw file without a column of names\<close>

text \<open>
  Without a \<open>location_name\<close> column after renaming, no run of the transform succeeds.
\<close>

lemma no_location_name_never_succeeds:
  assumes "''location_name'' \<notin> set (columns (renamed file))"
  shows "\<exists>err. clean_frame pd file = Inl err"
proof -
  have "''location_name'' \<notin> set (columns (numeric_and_date pd (renamed file)))"
    using assms by (simp add: columns_numeric_and_date required_def)
  then have "count_list (columns (numeric_and_date pd (renamed file))) ''location_name'' = 0"
    by (simp add: count_list_0_iff)
  then show ?thesis by (simp add: clean_frame_def Let_def)
qed

text \<open>
  C9. Claimed: when the raw file has no column of location names, normalization succeeds
  and every event has the location name \<open>Unknown\<close>. On a raw file with all required
  columns and no \<open>Name\<close> column, line 199 raises AttributeError and nothing is written.
\<close>

theorem missing_location_name_raises:
  "''location_name'' \<notin> set (columns (renamed no_name_raw))
   \<and> clean_frame example_pandas no_name_raw = Inl AttributeError
   \<and> auto_clean_raw_to_csv example_pandas [''data/raw.csv'' \<mapsto> no_name_raw]
        ''data/raw.csv'' ''data/earthquakes_clean.csv'' = Inl AttributeError"
proof -
  have a: "''location_name'' \<notin> set (columns (renamed no_name_raw))"
    by code_simp
  have b: "clean_frame example_pandas no_name_raw = Inl AttributeError"
    by code_simp
  from a b show ?thesis by (simp add: auto_clean_raw_to_csv_def)
qed

section \<open>Deaths and injuries\<close>




end
